theory Spec2Isabelle
  imports Complex_Main "HOL-Library.Sublist"
begin

section \<open>Python values and exceptions\<close>

text \<open>
  The program is \<^verbatim>\<open>slack_ldap_sync.py\<close> (Python 2). Everything it reads from the
  platform is decoded JSON, so platform data is modelled as JSON values and every
  Python operation the program applies to them (subscript, \<^verbatim>\<open>.get\<close>,
  \<^verbatim>\<open>.lower()\<close>, truth value, iteration) is a function that returns the exception
  Python would raise. JSON numbers are integers here; strings are ASCII.
\<close>

datatype error =
    HTTPError
  | LDAPError
  | KeyError
  | IndexError
  | TypeError
  | AttributeError
  | ZeroDivisionError
  | PagingUnsupported   \<comment> \<open>\<^verbatim>\<open>Exception("AD query Warning: Server ignores RFC 2696 control.")\<close>\<close>
  | FailsafeExceeded    \<comment> \<open>\<^verbatim>\<open>Exception('The failsafe threshold for deleting too many slack users was reached. ...')\<close>\<close>

datatype json =
    JNull
  | JBool bool
  | JNum int
  | JStr string
  | JArr "json list"
  | JObj "(string \<times> json) list"

fun bind_err :: "error + 'a \<Rightarrow> ('a \<Rightarrow> error + 'b) \<Rightarrow> error + 'b" where
  "bind_err (Inl e) f = Inl e"
| "bind_err (Inr x) f = f x"

text \<open>The truth value of a decoded JSON value, as \<^verbatim>\<open>if x:\<close> and \<^verbatim>\<open>or\<close> take it.\<close>

fun truthy :: "json \<Rightarrow> bool" where
  "truthy JNull = False"
| "truthy (JBool b) = b"
| "truthy (JNum n) = (n \<noteq> 0)"
| "truthy (JStr s) = (s \<noteq> [])"
| "truthy (JArr xs) = (xs \<noteq> [])"
| "truthy (JObj kvs) = (kvs \<noteq> [])"

text \<open>\<^verbatim>\<open>x[k]\<close> with a string key \<open>k\<close>.\<close>

fun subscript :: "json \<Rightarrow> string \<Rightarrow> error + json" where
  "subscript (JObj kvs) k = (case map_of kvs k of None \<Rightarrow> Inl KeyError | Some v \<Rightarrow> Inr v)"
| "subscript x k = Inl TypeError"

text \<open>\<^verbatim>\<open>x[0]\<close>. The keys of a decoded JSON object are strings, so \<open>0\<close> is never one.\<close>

fun subscript0 :: "json \<Rightarrow> error + json" where
  "subscript0 (JArr []) = Inl IndexError"
| "subscript0 (JArr (x # xs)) = Inr x"
| "subscript0 (JStr []) = Inl IndexError"
| "subscript0 (JStr (c # cs)) = Inr (JStr [c])"
| "subscript0 (JObj kvs) = Inl KeyError"
| "subscript0 x = Inl TypeError"

text \<open>\<^verbatim>\<open>x.get(k)\<close>: only a dict has the method.\<close>

fun py_get :: "json \<Rightarrow> string \<Rightarrow> error + json" where
  "py_get (JObj kvs) k = Inr (case map_of kvs k of None \<Rightarrow> JNull | Some v \<Rightarrow> v)"
| "py_get x k = Inl AttributeError"

text \<open>\<^verbatim>\<open>for x in v\<close>: the items a loop over the value visits.\<close>

fun py_iter :: "json \<Rightarrow> error + json list" where
  "py_iter (JArr xs) = Inr xs"
| "py_iter (JObj kvs) = Inr (map (\<lambda>kv. JStr (fst kv)) kvs)"
| "py_iter (JStr s) = Inr (map (\<lambda>c. JStr [c]) s)"
| "py_iter x = Inl TypeError"

definition lower_char :: "char \<Rightarrow> char" where
  "lower_char c =
     (case map_of (zip ''ABCDEFGHIJKLMNOPQRSTUVWXYZ'' ''abcdefghijklmnopqrstuvwxyz'') c of
        None \<Rightarrow> c
      | Some d \<Rightarrow> d)"

definition lower :: "string \<Rightarrow> string" where
  "lower s = map lower_char s"

text \<open>\<^verbatim>\<open>x.lower()\<close>: only a string has the method.\<close>

fun py_lower :: "json \<Rightarrow> error + string" where
  "py_lower (JStr s) = Inr (lower s)"
| "py_lower x = Inl AttributeError"

text \<open>\<^verbatim>\<open>sub in s\<close> on strings: \<open>sub\<close> occurs somewhere in \<open>s\<close>.\<close>

fun str_contains :: "string \<Rightarrow> string \<Rightarrow> bool" where
  "str_contains sub [] = (sub = [])"
| "str_contains sub (c # cs) = (prefix sub (c # cs) \<or> str_contains sub cs)"

subsection \<open>Dictionaries\<close>

text \<open>
  A dict the program fills and then iterates is an association list: a key that is
  already present keeps its place and takes the new value, a new key goes to the end,
  and iteration follows the list. (Python 2 iterates in some order of its own; nothing
  below depends on which.) Looking a key up is \<open>map_of\<close>. A key must be hashable, and \<^verbatim>\<open>True == 1\<close>,
  \<^verbatim>\<open>False == 0\<close> as keys.
\<close>

fun hashable :: "json \<Rightarrow> error + json" where
  "hashable (JArr xs) = Inl TypeError"
| "hashable (JObj kvs) = Inl TypeError"
| "hashable x = Inr x"

fun key_norm :: "json \<Rightarrow> json" where
  "key_norm (JBool b) = JNum (if b then 1 else 0)"
| "key_norm x = x"

definition key_eq :: "json \<Rightarrow> json \<Rightarrow> bool" where
  "key_eq a b = (key_norm a = key_norm b)"

fun jdict_set :: "json \<Rightarrow> 'v \<Rightarrow> (json \<times> 'v) list \<Rightarrow> (json \<times> 'v) list" where
  "jdict_set k v [] = [(k, v)]"
| "jdict_set k v (kv # d) = (if key_eq (fst kv) k then (fst kv, v) # d else kv # jdict_set k v d)"

fun jdict_get :: "(json \<times> 'v) list \<Rightarrow> json \<Rightarrow> 'v option" where
  "jdict_get [] k = None"
| "jdict_get (kv # d) k = (if key_eq (fst kv) k then Some (snd kv) else jdict_get d k)"

fun dict_set :: "string \<Rightarrow> 'v \<Rightarrow> (string \<times> 'v) list \<Rightarrow> (string \<times> 'v) list" where
  "dict_set k v [] = [(k, v)]"
| "dict_set k v (kv # d) = (if fst kv = k then (k, v) # d else kv # dict_set k v d)"

text \<open>A Python \<^verbatim>\<open>for\<close> loop that updates a value and stops at the first exception.\<close>

fun for_loop :: "('a \<Rightarrow> 's \<Rightarrow> error + 's) \<Rightarrow> 'a list \<Rightarrow> 's \<Rightarrow> error + 's" where
  "for_loop body [] s = Inr s"
| "for_loop body (x # xs) s = (case body x s of Inl e \<Rightarrow> Inl e | Inr s' \<Rightarrow> for_loop body xs s')"

section \<open>The environment of one cycle\<close>

text \<open>
  A request to the platform either raises (the request itself, or
  \<^verbatim>\<open>raise_for_status()\<close>; \<open>None\<close> here, \<open>HTTPError\<close> in the program) or gives a decoded
  body. The trace of a run lists the platform requests in the order they are made.
  Within one cycle the answer to a \<^verbatim>\<open>DELETE\<close> or to a message is taken to be a
  function of the request; each listing request has an answer of its own. For the directory,
  \<open>ldap_result3 i\<close> is the answer to the \<open>i\<close>-th call of \<^verbatim>\<open>result3\<close>, \<open>None\<close> when
  that call or the \<^verbatim>\<open>search_ext\<close> before it raises.
\<close>

datatype message =
    Disabled json string string   \<comment> \<open>slack id, email, reason: the text of \<^verbatim>\<open>disable_slack_user\<close>\<close>
  | Invalid json string string    \<comment> \<open>slack id, email, reason: the text of \<^verbatim>\<open>notify_admin_invalid_user\<close>\<close>
  | Escalation error              \<comment> \<open>the text built in the main loop's handler\<close>

datatype effect =
    GetGuestUsers
  | GetOwnerUsers
  | GetAllSlackUsersScim
  | GetAllSlackUsers
  | Delete json                   \<comment> \<open>\<^verbatim>\<open>requests.delete\<close> of \<^verbatim>\<open>/scim/v1/Users/<slack_id>\<close>\<close>
  | PostMessage json message      \<comment> \<open>\<^verbatim>\<open>chat.postMessage\<close> to a channel\<close>
  | Sleep

fun side_effect :: "effect \<Rightarrow> bool" where
  "side_effect (Delete i) = True"
| "side_effect (PostMessage c m) = True"
| "side_effect x = False"

type_synonym ldap_entry = "string \<times> (string \<times> string list) list"

record control =
  controlType :: string
  cookie :: string

record config =
  max_delete_failsafe :: rat
  use_scim_api :: bool

record world =
  guest_response :: "json option"
  owner_response :: "json option"
  scim_response :: "json option"
  legacy_response :: "json option"
  ldap_bind_ok :: bool
  ldap_result3 :: "nat \<Rightarrow> (ldap_entry list \<times> control list) option"
  ldap_unbind_ok :: bool
  delete_ok :: "json \<Rightarrow> bool"
  post_ok :: "json \<Rightarrow> message \<Rightarrow> bool"
  escalation_owner_response :: "json option"

section \<open>Platform inventory\<close>

text \<open>
  \<^verbatim>\<open>get_all_slack_users_scim\<close> returns \<^verbatim>\<open>results['Resources']\<close> and
  \<^verbatim>\<open>get_all_slack_users\<close> returns \<^verbatim>\<open>results['members']\<close>, both as decoded: neither
  changes an account.
\<close>

definition get_all_slack_users_scim :: "json option \<Rightarrow> error + json" where
  "get_all_slack_users_scim response =
     (case response of None \<Rightarrow> Inl HTTPError | Some results \<Rightarrow> subscript results ''Resources'')"

definition get_all_slack_users :: "json option \<Rightarrow> error + json" where
  "get_all_slack_users response =
     (case response of None \<Rightarrow> Inl HTTPError | Some results \<Rightarrow> subscript results ''members'')"

text \<open>
  The body of the loop of \<^verbatim>\<open>get_guest_users\<close>:
  \<^verbatim>\<open>if user.get('is_ultra_restricted') or user.get('is_restricted'):
       guest_users[user['id']] = user['profile']['email']\<close>
  The right-hand side of the assignment is evaluated before the key.
\<close>

definition guest_step :: "json \<Rightarrow> (json \<times> json) list \<Rightarrow> error + (json \<times> json) list" where
  "guest_step user guest_users =
     bind_err (py_get user ''is_ultra_restricted'') (\<lambda>ultra.
     bind_err (if truthy ultra then Inr ultra else py_get user ''is_restricted'') (\<lambda>restricted.
       if truthy restricted then
         bind_err (subscript user ''profile'') (\<lambda>profile.
         bind_err (subscript profile ''email'') (\<lambda>email.
         bind_err (subscript user ''id'') (\<lambda>uid.
         bind_err (hashable uid) (\<lambda>k.
           Inr (jdict_set k email guest_users)))))
       else Inr guest_users))"

definition get_guest_users :: "json option \<Rightarrow> error + (json \<times> json) list" where
  "get_guest_users response =
     (case response of
        None \<Rightarrow> Inl HTTPError
      | Some body \<Rightarrow>
          bind_err (subscript body ''members'') (\<lambda>members.
          bind_err (py_iter members) (\<lambda>users.
            for_loop guest_step users [])))"

definition owner_step :: "json \<Rightarrow> (json \<times> json) list \<Rightarrow> error + (json \<times> json) list" where
  "owner_step user owner_users =
     bind_err (py_get user ''is_owner'') (\<lambda>is_owner.
       if truthy is_owner then
         bind_err (subscript user ''profile'') (\<lambda>profile.
         bind_err (subscript profile ''email'') (\<lambda>email.
         bind_err (subscript user ''id'') (\<lambda>uid.
         bind_err (hashable uid) (\<lambda>k.
           Inr (jdict_set k email owner_users)))))
       else Inr owner_users)"

definition get_owner_users :: "json option \<Rightarrow> error + (json \<times> json) list" where
  "get_owner_users response =
     (case response of
        None \<Rightarrow> Inl HTTPError
      | Some body \<Rightarrow>
          bind_err (subscript body ''members'') (\<lambda>members.
          bind_err (py_iter members) (\<lambda>users.
            for_loop owner_step users [])))"

section \<open>Directory enumeration\<close>

text \<open>
  \<^verbatim>\<open>result3\<close> gives the entries of a page and the server's response controls. An
  entry is its distinguished name and its attributes, each with its list of values.
  The body of the inner loop:
  \<^verbatim>\<open>if 'mail' in entry[1] and entry[1]['mail'][0]:
       email = entry[1]['mail'][0]
       all_ad_users[email.lower()] = True\<close>
\<close>

definition add_entry :: "ldap_entry \<Rightarrow> (string \<times> bool) list \<Rightarrow> error + (string \<times> bool) list" where
  "add_entry entry all_ad_users =
     (case map_of (snd entry) ''mail'' of
        None \<Rightarrow> Inr all_ad_users
      | Some vals \<Rightarrow>
          (case vals of
             [] \<Rightarrow> Inl IndexError
           | email # rest \<Rightarrow>
               if email \<noteq> [] then Inr (dict_set (lower email) True all_ad_users)
               else Inr all_ad_users))"

definition paged_results_oid :: string where
  "paged_results_oid = ''1.2.840.113556.1.4.319''"

text \<open>
  The \<^verbatim>\<open>while True\<close> loop. \<open>i\<close> counts the pages read so far (the program's
  \<^verbatim>\<open>pages\<close>, less one); the \<open>i\<close>-th call of \<^verbatim>\<open>result3\<close> answers the search sent
  with the cookie of the page before. A server that never sends an empty cookie keeps
  the loop running for ever: the value \<open>None\<close>.
\<close>

partial_function (option) ad_pages ::
  "(nat \<Rightarrow> (ldap_entry list \<times> control list) option) \<Rightarrow> nat \<Rightarrow> (string \<times> bool) list
     \<Rightarrow> (error + (string \<times> bool) list) option" where
  "ad_pages result3 i all_ad_users =
     (case result3 i of
        None \<Rightarrow> Some (Inl LDAPError)
      | Some page \<Rightarrow>
          (case for_loop add_entry (fst page) all_ad_users of
             Inl e \<Rightarrow> Some (Inl e)
           | Inr all_ad_users' \<Rightarrow>
               (case filter (\<lambda>c. controlType c = paged_results_oid) (snd page) of
                  [] \<Rightarrow> Some (Inl PagingUnsupported)
                | c # cs \<Rightarrow>
                    if cookie c \<noteq> [] then ad_pages result3 (i + 1) all_ad_users'
                    else Some (Inr all_ad_users'))))"

definition get_all_active_ad_users :: "world \<Rightarrow> (error + (string \<times> bool) list) option" where
  "get_all_active_ad_users w =
     (if \<not> ldap_bind_ok w then Some (Inl LDAPError)
      else
        (case ad_pages (ldap_result3 w) 0 [] of
           None \<Rightarrow> None
         | Some (Inl e) \<Rightarrow> Some (Inl e)
         | Some (Inr all_ad_users) \<Rightarrow>
             if ldap_unbind_ok w then Some (Inr all_ad_users) else Some (Inl LDAPError)))"

section \<open>Revocation and notification\<close>

text \<open>
  \<^verbatim>\<open>slack_message_owners\<close>: one request per key of \<^verbatim>\<open>owners\<close>, each followed by
  \<^verbatim>\<open>raise_for_status()\<close>.
\<close>

fun post_each :: "(json \<Rightarrow> message \<Rightarrow> bool) \<Rightarrow> message \<Rightarrow> json list \<Rightarrow> (error + bool) \<times> effect list" where
  "post_each ok m [] = (Inr True, [])"
| "post_each ok m (owner # owners) =
     (if ok owner m then
        (case post_each ok m owners of (r, t) \<Rightarrow> (r, PostMessage owner m # t))
      else (Inl HTTPError, [PostMessage owner m]))"

definition slack_message_owners ::
  "world \<Rightarrow> message \<Rightarrow> (json \<times> json) list \<Rightarrow> (error + bool) \<times> effect list" where
  "slack_message_owners w m owners = post_each (post_ok w) m (map fst owners)"

definition disable_slack_user ::
  "world \<Rightarrow> json \<Rightarrow> string \<Rightarrow> string \<Rightarrow> (json \<times> json) list \<Rightarrow> (error + bool) \<times> effect list" where
  "disable_slack_user w slack_id slack_email reason owners =
     (if delete_ok w slack_id then
        (case slack_message_owners w (Disabled slack_id slack_email reason) owners of
           (Inl e, t) \<Rightarrow> (Inl e, Delete slack_id # t)
         | (Inr b, t) \<Rightarrow> (Inr True, Delete slack_id # t))
      else (Inl HTTPError, [Delete slack_id]))"

definition notify_admin_invalid_user ::
  "world \<Rightarrow> json \<Rightarrow> string \<Rightarrow> string \<Rightarrow> (json \<times> json) list \<Rightarrow> (error + bool) \<times> effect list" where
  "notify_admin_invalid_user w slack_id slack_email reason owners =
     slack_message_owners w (Invalid slack_id slack_email reason) owners"

section \<open>One reconciliation cycle\<close>

record candidate =
  slack_id :: json
  reason :: string

text \<open>
  The body of the first loop of \<^verbatim>\<open>sync_slack_ldap\<close> (the email is read first, then
  the active flag, then the id):
  \<^verbatim>\<open>slack_user_email = slack_user['emails'][0]['value'].lower()
  if not slack_user['active']: continue
  if guest_users.get(slack_user['id']) or '@slack-bots.com' in slack_user_email: continue
  if not all_ad_users.get(slack_user_email):
      slack_users_to_be_deleted[slack_user_email] = {'slack_id': slack_user['id'], 'reason': ...}\<close>
\<close>

definition collect_step ::
  "(json \<times> json) list \<Rightarrow> (string \<times> bool) list \<Rightarrow> json \<Rightarrow> (string \<times> candidate) list
     \<Rightarrow> error + (string \<times> candidate) list" where
  "collect_step guest_users all_ad_users slack_user to_be_deleted =
     bind_err (subscript slack_user ''emails'') (\<lambda>emails.
     bind_err (subscript0 emails) (\<lambda>first.
     bind_err (subscript first ''value'') (\<lambda>val.
     bind_err (py_lower val) (\<lambda>slack_user_email.
     bind_err (subscript slack_user ''active'') (\<lambda>active.
       if \<not> truthy active then Inr to_be_deleted
       else
         bind_err (subscript slack_user ''id'') (\<lambda>uid.
         bind_err (hashable uid) (\<lambda>k.
           if (case jdict_get guest_users k of None \<Rightarrow> False | Some g \<Rightarrow> truthy g)
                \<or> str_contains ''@slack-bots.com'' slack_user_email
           then Inr to_be_deleted
           else if \<not> (case map_of all_ad_users slack_user_email of None \<Rightarrow> False | Some b \<Rightarrow> b)
           then Inr (dict_set slack_user_email
                       \<lparr>slack_id = uid, reason = ''they do not exist in corp LDAP.''\<rparr>
                       to_be_deleted)
           else Inr to_be_deleted)))))))"

definition slack_users_to_be_deleted ::
  "(json \<times> json) list \<Rightarrow> (string \<times> bool) list \<Rightarrow> json list \<Rightarrow> error + (string \<times> candidate) list" where
  "slack_users_to_be_deleted guest_users all_ad_users users =
     for_loop (collect_step guest_users all_ad_users) users []"

text \<open>The second loop: \<^verbatim>\<open>for slack_email, value in slack_users_to_be_deleted.iteritems()\<close>.\<close>

fun delete_each ::
  "config \<Rightarrow> world \<Rightarrow> (json \<times> json) list \<Rightarrow> (string \<times> candidate) list \<Rightarrow> (error + unit) \<times> effect list" where
  "delete_each cfg w owners [] = (Inr (), [])"
| "delete_each cfg w owners (item # items) =
     (case (if use_scim_api cfg
            then disable_slack_user w (slack_id (snd item)) (fst item) (reason (snd item)) owners
            else notify_admin_invalid_user w (slack_id (snd item)) (fst item) (reason (snd item)) owners) of
        (Inl e, t) \<Rightarrow> (Inl e, t)
      | (Inr b, t) \<Rightarrow> (case delete_each cfg w owners items of (r, t') \<Rightarrow> (r, t @ t')))"

text \<open>
  \<^verbatim>\<open>sync_slack_ldap\<close> from the first loop on. The quotient
  \<^verbatim>\<open>float(len(slack_users_to_be_deleted)) / len(all_slack_users)\<close> and the threshold are
  rational numbers here.
\<close>

definition reconcile ::
  "config \<Rightarrow> world \<Rightarrow> (json \<times> json) list \<Rightarrow> (json \<times> json) list \<Rightarrow> json \<Rightarrow> (string \<times> bool) list
     \<Rightarrow> (error + unit) \<times> effect list" where
  "reconcile cfg w guest_users all_slack_owners all_slack_users all_ad_users =
     (case py_iter all_slack_users of
        Inl e \<Rightarrow> (Inl e, [])
      | Inr users \<Rightarrow>
          (case slack_users_to_be_deleted guest_users all_ad_users users of
             Inl e \<Rightarrow> (Inl e, [])
           | Inr to_be_deleted \<Rightarrow>
               if length users = 0 then (Inl ZeroDivisionError, [])
               else if of_nat (length to_be_deleted) / of_nat (length users) > max_delete_failsafe cfg
               then (Inl FailsafeExceeded, [])
               else delete_each cfg w all_slack_owners to_be_deleted))"

definition fetches :: "config \<Rightarrow> effect list" where
  "fetches cfg =
     [GetGuestUsers, GetOwnerUsers, if use_scim_api cfg then GetAllSlackUsersScim else GetAllSlackUsers]"

definition sync_slack_ldap :: "config \<Rightarrow> world \<Rightarrow> ((error + unit) \<times> effect list) option" where
  "sync_slack_ldap cfg w =
     (case get_guest_users (guest_response w) of
        Inl e \<Rightarrow> Some (Inl e, [GetGuestUsers])
      | Inr guest_users \<Rightarrow>
     (case get_owner_users (owner_response w) of
        Inl e \<Rightarrow> Some (Inl e, [GetGuestUsers, GetOwnerUsers])
      | Inr all_slack_owners \<Rightarrow>
     (case (if use_scim_api cfg then get_all_slack_users_scim (scim_response w)
            else get_all_slack_users (legacy_response w)) of
        Inl e \<Rightarrow> Some (Inl e, fetches cfg)
      | Inr all_slack_users \<Rightarrow>
     (case get_all_active_ad_users w of
        None \<Rightarrow> None
      | Some (Inl e) \<Rightarrow> Some (Inl e, fetches cfg)
      | Some (Inr all_ad_users) \<Rightarrow>
          (case reconcile cfg w guest_users all_slack_owners all_slack_users all_ad_users of
             (r, t) \<Rightarrow> Some (r, fetches cfg @ t))))))"

section \<open>The main loop\<close>

text \<open>
  One pass of the \<^verbatim>\<open>while True\<close> loop of \<^verbatim>\<open>__main__\<close>, from the value of
  \<^verbatim>\<open>error_counter\<close> before it. \<^verbatim>\<open>except Exception\<close> covers the call of
  \<^verbatim>\<open>sync_slack_ldap\<close> only: what the handler itself raises leaves the loop.
\<close>

datatype outcome =
    Continue nat   \<comment> \<open>the pass reached \<^verbatim>\<open>time.sleep\<close>; the counter after it\<close>
  | Exit error     \<comment> \<open>an exception left the loop\<close>

definition main_pass :: "config \<Rightarrow> world \<Rightarrow> nat \<Rightarrow> (outcome \<times> effect list) option" where
  "main_pass cfg w error_counter =
     (case sync_slack_ldap cfg w of
        None \<Rightarrow> None
      | Some (Inr u, t) \<Rightarrow> Some (Continue 0, t @ [Sleep])
      | Some (Inl err, t) \<Rightarrow>
          if (error_counter + 1) mod 48 = 4 then
            (case get_owner_users (escalation_owner_response w) of
               Inl e \<Rightarrow> Some (Exit e, t @ [GetOwnerUsers])
             | Inr owners \<Rightarrow>
                 (case slack_message_owners w (Escalation err) owners of
                    (Inl e, t') \<Rightarrow> Some (Exit e, t @ GetOwnerUsers # t')
                  | (Inr b, t') \<Rightarrow> Some (Continue (error_counter + 1), t @ GetOwnerUsers # t' @ [Sleep])))
          else Some (Continue (error_counter + 1), t @ [Sleep]))"

text \<open>The loop over the environments of its first passes.\<close>

fun main_loop :: "config \<Rightarrow> world list \<Rightarrow> nat \<Rightarrow> (outcome \<times> effect list) option" where
  "main_loop cfg [] error_counter = Some (Continue error_counter, [])"
| "main_loop cfg (w # ws) error_counter =
     (case main_pass cfg w error_counter of
        None \<Rightarrow> None
      | Some (Exit e, t) \<Rightarrow> Some (Exit e, t)
      | Some (Continue c, t) \<Rightarrow>
          (case main_loop cfg ws c of
             None \<Rightarrow> None
           | Some (r, t') \<Rightarrow> Some (r, t @ t')))"

section \<open>Notions the statements use\<close>

text \<open>
  The email under which the first loop of \<^verbatim>\<open>sync_slack_ldap\<close> selects an account
  taken on its own, if it selects it: the body of the loop run on the empty dict.
\<close>

definition step_key :: "(json \<times> json) list \<Rightarrow> (string \<times> bool) list \<Rightarrow> json \<Rightarrow> string option" where
  "step_key guest_users all_ad_users slack_user =
     (case collect_step guest_users all_ad_users slack_user [] of
        Inr [item] \<Rightarrow> Some (fst item)
      | _ \<Rightarrow> None)"





definition add_all :: "string list \<Rightarrow> (string \<times> bool) list \<Rightarrow> (string \<times> bool) list" where
  "add_all ks all_ad_users = fold (\<lambda>k. dict_set k True) ks all_ad_users"

section \<open>Sample data\<close>

text \<open>
  An account as the provisioning listing gives it, a member as \<^verbatim>\<open>users.list\<close> gives
  it (the fields \<^verbatim>\<open>get_guest_users\<close> and \<^verbatim>\<open>get_owner_users\<close> read), and an
  environment in which the platform has no account, the directory has one empty page
  and every request succeeds.
\<close>

definition scim_account :: "string \<Rightarrow> string \<Rightarrow> bool \<Rightarrow> json" where
  "scim_account uid email active =
     JObj [(''id'', JStr uid), (''emails'', JArr [JObj [(''value'', JStr email)]]), (''active'', JBool active)]"

definition listed_member :: "string \<Rightarrow> string \<Rightarrow> bool \<Rightarrow> bool \<Rightarrow> json" where
  "listed_member uid email restricted owner =
     JObj [(''id'', JStr uid), (''is_restricted'', JBool restricted), (''is_owner'', JBool owner),
           (''profile'', JObj [(''email'', JStr email)])]"

definition members_body :: "json list \<Rightarrow> json" where
  "members_body users = JObj [(''members'', JArr users)]"

definition resources_body :: "json list \<Rightarrow> json" where
  "resources_body users = JObj [(''Resources'', JArr users)]"

definition paged :: "string \<Rightarrow> control" where
  "paged ck = \<lparr>controlType = paged_results_oid, cookie = ck\<rparr>"

definition quiet_world :: world where
  "quiet_world =
     \<lparr>guest_response = Some (members_body []),
      owner_response = Some (members_body []),
      scim_response = Some (resources_body []),
      legacy_response = Some (members_body []),
      ldap_bind_ok = True,
      ldap_result3 = (\<lambda>i. Some ([], [paged []])),
      ldap_unbind_ok = True,
      delete_ok = (\<lambda>i. True),
      post_ok = (\<lambda>c m. True),
      escalation_owner_response = Some (members_body [])\<rparr>"

section \<open>Evaluation\<close>

lemmas sample_defs =
  scim_account_def listed_member_def members_body_def resources_body_def paged_def quiet_world_def

lemmas program_defs =
  get_all_slack_users_scim_def get_all_slack_users_def guest_step_def get_guest_users_def
  owner_step_def get_owner_users_def add_entry_def paged_results_oid_def get_all_active_ad_users_def
  slack_message_owners_def disable_slack_user_def notify_admin_invalid_user_def collect_step_def
  slack_users_to_be_deleted_def reconcile_def fetches_def sync_slack_ldap_def main_pass_def
  lower_def lower_char_def key_eq_def ad_pages.simps

lemma bind_err_case: "bind_err m f = (case m of Inl e \<Rightarrow> Inl e | Inr x \<Rightarrow> f x)"
  by (cases m) simp_all

section \<open>Errors and requests of the second loop\<close>







section \<open>The failsafe guard\<close>




section \<open>The empty snapshot\<close>

text \<open>
  C2. When the platform listing holds no account, a cycle whose directory enumeration
  returns ends with an exception and has made no \<^verbatim>\<open>DELETE\<close> request and posted
  no message; it never ends normally. When the listings and the directory were read
  without error, the exception is the \<^verbatim>\<open>ZeroDivisionError\<close> of the quotient.
\<close>

theorem empty_snapshot_fails:
  assumes "(if use_scim_api cfg then get_all_slack_users_scim (scim_response w)
            else get_all_slack_users (legacy_response w)) = Inr all_slack_users"
    and "py_iter all_slack_users = Inr []"
    and "get_all_active_ad_users w = Some d"
  shows "(\<exists>e t. sync_slack_ldap cfg w = Some (Inl e, t) \<and> filter side_effect t = [])
         \<and> (\<forall>g ow a. get_guest_users (guest_response w) = Inr g
               \<longrightarrow> get_owner_users (owner_response w) = Inr ow
               \<longrightarrow> d = Inr a
               \<longrightarrow> sync_slack_ldap cfg w = Some (Inl ZeroDivisionError, fetches cfg))"
proof -
  have r: "reconcile cfg w g ow all_slack_users a = (Inl ZeroDivisionError, [])" for g ow a
    using assms(2) by (simp add: reconcile_def slack_users_to_be_deleted_def)
  have "\<exists>e t. sync_slack_ldap cfg w = Some (Inl e, t) \<and> filter side_effect t = []"
    using assms(1) assms(3) r
    by (cases d) (auto simp: sync_slack_ldap_def fetches_def split: sum.splits)
  moreover have "sync_slack_ldap cfg w = Some (Inl ZeroDivisionError, fetches cfg)"
    if "get_guest_users (guest_response w) = Inr g" "get_owner_users (owner_response w) = Inr ow" "d = Inr a"
    for g ow a
    using that assms(1) assms(3) r by (simp add: sync_slack_ldap_def)
  ultimately show ?thesis by blast
qed


theorem empty_snapshot_fails_witness:
  "py_iter (JArr []) = Inr []
   \<and> get_all_active_ad_users quiet_world = Some (Inr [])
   \<and> (\<exists>e t. sync_slack_ldap \<lparr>max_delete_failsafe = 1 / 5, use_scim_api = True\<rparr> quiet_world = Some (Inl e, t)
          \<and> filter side_effect t = [])
   \<and> sync_slack_ldap \<lparr>max_delete_failsafe = 1 / 5, use_scim_api = True\<rparr> quiet_world
       = Some (Inl ZeroDivisionError, [GetGuestUsers, GetOwnerUsers, GetAllSlackUsersScim])"
proof -
  let ?cfg = "\<lparr>max_delete_failsafe = 1 / 5, use_scim_api = True\<rparr>"
  have u: "(if use_scim_api ?cfg then get_all_slack_users_scim (scim_response quiet_world)
            else get_all_slack_users (legacy_response quiet_world)) = Inr (JArr [])"
    by (simp add: sample_defs program_defs)
  have i: "py_iter (JArr []) = Inr []" by simp
  have a: "get_all_active_ad_users quiet_world = Some (Inr [])"
    by (simp add: sample_defs program_defs)
  have g: "get_guest_users (guest_response quiet_world) = Inr []"
    by (simp add: sample_defs program_defs)
  have o: "get_owner_users (owner_response quiet_world) = Inr []"
    by (simp add: sample_defs program_defs)
  from empty_snapshot_fails [OF u i a] g o i a show ?thesis
    by (simp add: fetches_def)
qed

section \<open>The cadence of escalation\<close>





section \<open>What leaves the main loop\<close>

text \<open>
  C9. The handler of the main loop is outside the \<^verbatim>\<open>try\<close>. With the counter at 3, a
  cycle that fails makes it 4; the handler calls \<^verbatim>\<open>get_owner_users\<close>, and when that
  request fails too the exception leaves the \<^verbatim>\<open>while\<close> loop: the pass does not sleep
  and the next cycle is not run.
\<close>

theorem handler_error_leaves_loop:
  "main_loop \<lparr>max_delete_failsafe = 1 / 5, use_scim_api = True\<rparr>
     [quiet_world\<lparr>guest_response := None, escalation_owner_response := None\<rparr>, quiet_world] 3
   = Some (Exit HTTPError, [GetGuestUsers, GetOwnerUsers])"
  by (simp add: sample_defs program_defs)


section \<open>The legacy listing\<close>

text \<open>
  C6. With \<^verbatim>\<open>use_scim_api\<close> off the accounts are the members of \<^verbatim>\<open>users.list\<close> as
  they come. A member with the fields the program itself reads from that listing
  elsewhere (\<^verbatim>\<open>id\<close> and \<^verbatim>\<open>profile.email\<close>) has no \<^verbatim>\<open>emails\<close>: the first loop
  raises \<^verbatim>\<open>KeyError\<close> on it and the cycle fails.
\<close>

theorem legacy_listing_raises:
  "sync_slack_ldap \<lparr>max_delete_failsafe = 1 / 5, use_scim_api = False\<rparr>
     (quiet_world\<lparr>legacy_response := Some (members_body [listed_member ''U1'' ''a@x.com'' False False])\<rparr>)
   = Some (Inl KeyError, [GetGuestUsers, GetOwnerUsers, GetAllSlackUsers])"
  by (simp add: sample_defs program_defs)

text \<open>
  More generally, an account that has an email but no \<^verbatim>\<open>active\<close> field is not taken
  as active: the first loop raises \<^verbatim>\<open>KeyError\<close> on it.
\<close>

lemma account_without_active_flag_raises:
  assumes "bind_err (subscript (JObj kvs) ''emails'') (\<lambda>emails.
             bind_err (subscript0 emails) (\<lambda>first. subscript first ''value'')) = Inr (JStr e)"
    and "map_of kvs ''active'' = None"
  shows "collect_step guest_users all_ad_users (JObj kvs) to_be_deleted = Inl KeyError"
  using assms
  by (auto simp: collect_step_def bind_err_case split: sum.splits option.splits)

section \<open>Errors of one candidate or one recipient\<close>










section \<open>One candidate for each email\<close>

















section \<open>Directory enumeration returns every page\<close>

lemma add_all_simps [simp]:
  "add_all [] acc = acc"
  "add_all (k # ks) acc = add_all ks (dict_set k True acc)"
  "add_all (ks @ ks') acc = add_all ks' (add_all ks acc)"
  by (simp_all add: add_all_def)













section \<open>Emails are compared in lower case\<close>












section \<open>Guests\<close>

text \<open>
  C8. \<^verbatim>\<open>get_guest_users\<close> stores a guest's email under the guest's id, and the first
  loop skips an account when \<^verbatim>\<open>guest_users.get(id)\<close> is true. A restricted member
  whose listed email is the empty string is stored as a guest and is not skipped: with
  its address absent from the directory it is revoked.
\<close>

theorem guest_with_empty_email_is_revoked:
  "get_guest_users (Some (members_body [listed_member ''G1'' '''' True False])) = Inr [(JStr ''G1'', JStr '''')]
   \<and> sync_slack_ldap \<lparr>max_delete_failsafe = 1, use_scim_api = True\<rparr>
       (quiet_world\<lparr>guest_response := Some (members_body [listed_member ''G1'' '''' True False]),
                    scim_response := Some (resources_body [scim_account ''G1'' ''g@x.com'' True])\<rparr>)
     = Some (Inr (), [GetGuestUsers, GetOwnerUsers, GetAllSlackUsersScim, Delete (JStr ''G1'')])"
  by (simp add: sample_defs program_defs)

text \<open>
  What does hold of C8: an account whose lower-cased email ends with
  \<^verbatim>\<open>@slack-bots.com\<close> is not selected, and an account whose id is stored in
  \<^verbatim>\<open>guest_users\<close> with an email that is true is not selected.
\<close>

lemma suffix_str_contains: "suffix sub s \<Longrightarrow> str_contains sub s"
proof (induction s)
  case Nil
  then show ?case by simp
next
  case (Cons c cs)
  from Cons.prems have "sub = c # cs \<or> suffix sub cs" by (simp add: suffix_Cons)
  with Cons.IH show ?case by auto
qed

lemma bot_not_selected:
  assumes "bind_err (subscript slack_user ''emails'') (\<lambda>emails.
             bind_err (subscript0 emails) (\<lambda>first. subscript first ''value'')) = Inr (JStr e)"
    and "suffix ''@slack-bots.com'' (lower e)"
  shows "step_key guest_users all_ad_users slack_user = None"
  using assms suffix_str_contains [OF assms(2)]
  by (auto simp: step_key_def collect_step_def bind_err_case split: sum.splits list.splits)

lemma guest_with_email_not_selected:
  assumes "subscript slack_user ''id'' = Inr uid"
    and "jdict_get guest_users uid = Some email"
    and "truthy email"
  shows "step_key guest_users all_ad_users slack_user = None"
  using assms
  by (cases uid) (auto simp: step_key_def collect_step_def bind_err_case split: sum.splits list.splits)

end
